theory Spec2Isabelle
  imports Main "HOL-Library.Word" "HOL-Library.Multiset" "HOL-Library.Char_ord"
    "HOL-Library.List_Lexorder"
begin

unbundle bit_operations_syntax

section \<open>Python values\<close>

text \<open>
  The transaction records of \<^verbatim>\<open>main.py\<close> are what \<^verbatim>\<open>json.load\<close> returns: nested
  dictionaries, lists, strings, integers, booleans and \<^verbatim>\<open>None\<close>. A dictionary is an
  association list in insertion order (its keys are distinct in Python); a Python
  \<^verbatim>\<open>str\<close> is a list of code points below 256; JSON numbers with a fraction or an
  exponent (Python floats) are not part of the model.
\<close>

datatype json =
    JNull
  | JBool bool
  | JInt int
  | JStr string
  | JList "json list"
  | JDict "(string \<times> json) list"

datatype error =
    KeyError | IndexError | TypeError | AttributeError | AssertionError | ValueError

text \<open>Sequencing of computations that may raise: the first exception wins.\<close>

definition and_then :: "error + 'a \<Rightarrow> ('a \<Rightarrow> error + 'b) \<Rightarrow> error + 'b" where
  "and_then m f = (case m of Inl e \<Rightarrow> Inl e | Inr x \<Rightarrow> f x)"

text \<open>\<^verbatim>\<open>bool(x)\<close>, as used by \<^verbatim>\<open>not x\<close> and \<^verbatim>\<open>any\<close>.\<close>

fun truthy :: "json \<Rightarrow> bool" where
  "truthy JNull = False"
| "truthy (JBool b) = b"
| "truthy (JInt n) = (n \<noteq> 0)"
| "truthy (JStr s) = (s \<noteq> [])"
| "truthy (JList xs) = (xs \<noteq> [])"
| "truthy (JDict kvs) = (kvs \<noteq> [])"

text \<open>\<^verbatim>\<open>x[k]\<close> for a string key \<open>k\<close>.\<close>

fun getitem :: "json \<Rightarrow> string \<Rightarrow> error + json" where
  "getitem (JDict kvs) k = (case map_of kvs k of None \<Rightarrow> Inl KeyError | Some v \<Rightarrow> Inr v)"
| "getitem _ k = Inl TypeError"

text \<open>\<^verbatim>\<open>x[0]\<close>. A dictionary loaded from JSON has string keys only, so \<open>0\<close> is no key of it.\<close>

fun getitem0 :: "json \<Rightarrow> error + json" where
  "getitem0 (JList []) = Inl IndexError"
| "getitem0 (JList (x # xs)) = Inr x"
| "getitem0 (JStr []) = Inl IndexError"
| "getitem0 (JStr (c # cs)) = Inr (JStr [c])"
| "getitem0 (JDict kvs) = Inl KeyError"
| "getitem0 _ = Inl TypeError"

text \<open>The elements a \<^verbatim>\<open>for\<close> loop or a generator expression draws from \<open>x\<close>.\<close>

fun py_iter :: "json \<Rightarrow> error + json list" where
  "py_iter (JList xs) = Inr xs"
| "py_iter (JDict kvs) = Inr (map (\<lambda>kv. JStr (fst kv)) kvs)"
| "py_iter (JStr s) = Inr (map (\<lambda>c. JStr [c]) s)"
| "py_iter _ = Inl TypeError"

text \<open>\<^verbatim>\<open>len(x)\<close>.\<close>

fun py_len :: "json \<Rightarrow> error + nat" where
  "py_len (JList xs) = Inr (length xs)"
| "py_len (JDict kvs) = Inr (length kvs)"
| "py_len (JStr s) = Inr (length s)"
| "py_len _ = Inl TypeError"

text \<open>\<^verbatim>\<open>x == n\<close> for an integer \<open>n\<close>; \<^verbatim>\<open>True == 1\<close> and \<^verbatim>\<open>False == 0\<close> hold in Python.\<close>

fun eq_int :: "json \<Rightarrow> int \<Rightarrow> bool" where
  "eq_int (JInt m) n = (m = n)"
| "eq_int (JBool b) n = ((if b then 1 else 0) = n)"
| "eq_int _ n = False"

text \<open>\<^verbatim>\<open>x > 0\<close> and \<^verbatim>\<open>x < 0\<close>: ordering against an integer is defined for numbers only.\<close>

fun gt_zero :: "json \<Rightarrow> error + bool" where
  "gt_zero (JInt m) = Inr (m > 0)"
| "gt_zero (JBool b) = Inr b"
| "gt_zero _ = Inl TypeError"

fun lt_zero :: "json \<Rightarrow> error + bool" where
  "lt_zero (JInt m) = Inr (m < 0)"
| "lt_zero (JBool b) = Inr False"
| "lt_zero _ = Inl TypeError"

text \<open>\<^verbatim>\<open>acc + x\<close> for an integer accumulator, the step of \<^verbatim>\<open>sum\<close>.\<close>

fun add_int :: "int \<Rightarrow> json \<Rightarrow> error + int" where
  "add_int acc (JInt m) = Inr (acc + m)"
| "add_int acc (JBool b) = Inr (acc + (if b then 1 else 0))"
| "add_int acc _ = Inl TypeError"

text \<open>\<^verbatim>\<open>x + s\<close> for a string \<open>s\<close>: concatenation when \<open>x\<close> is a string.\<close>

fun add_str :: "json \<Rightarrow> string \<Rightarrow> error + string" where
  "add_str (JStr t) s = Inr (t @ s)"
| "add_str _ s = Inl TypeError"

text \<open>\<^verbatim>\<open>x.get(k, False)\<close>: only dictionaries have the method.\<close>

fun get_or_false :: "json \<Rightarrow> string \<Rightarrow> error + json" where
  "get_or_false (JDict kvs) k = (case map_of kvs k of None \<Rightarrow> Inr (JBool False) | Some v \<Rightarrow> Inr v)"
| "get_or_false _ k = Inl AttributeError"

text \<open>\<^verbatim>\<open>k in x\<close> for a string \<open>k\<close>: a key of a dictionary, an element of a list, a
  substring of a string.\<close>

fun is_substr :: "string \<Rightarrow> string \<Rightarrow> bool" where
  "is_substr k [] = (k = [])"
| "is_substr k (c # cs) = (take (length k) (c # cs) = k \<or> is_substr k cs)"

fun contains_str :: "string \<Rightarrow> json \<Rightarrow> error + bool" where
  "contains_str k (JDict kvs) = Inr (map_of kvs k \<noteq> None)"
| "contains_str k (JList xs) = Inr (JStr k \<in> set xs)"
| "contains_str k (JStr s) = Inr (is_substr k s)"
| "contains_str k _ = Inl TypeError"

section \<open>Strings\<close>

text \<open>\<^verbatim>\<open>str(n)\<close> for an integer: the decimal digits, with a minus sign when negative.\<close>

definition digit_char :: "int \<Rightarrow> char" where
  "digit_char d = char_of (48 + d)"

function dec_digits :: "int \<Rightarrow> string" where
  "dec_digits n = (if n < 10 then [digit_char n] else dec_digits (n div 10) @ [digit_char (n mod 10)])"
  by pat_completeness auto
termination
  by (relation "measure nat") auto

definition str_int :: "int \<Rightarrow> string" where
  "str_int n = (if n < 0 then CHR ''-'' # dec_digits (- n) else dec_digits n)"

text \<open>Two lower-case hexadecimal digits of a character code.\<close>

definition hex_char :: "nat \<Rightarrow> char" where
  "hex_char n = ''0123456789abcdef'' ! n"

definition hex2 :: "char \<Rightarrow> string" where
  "hex2 c = [hex_char (of_char c div 16), hex_char (of_char c mod 16)]"

text \<open>\<^verbatim>\<open>sep.join(xs)\<close>.\<close>

fun join :: "string \<Rightarrow> string list \<Rightarrow> string" where
  "join sep [] = []"
| "join sep [x] = x"
| "join sep (x # y # ys) = x @ sep @ join sep (y # ys)"

text \<open>
  \<^verbatim>\<open>repr(s)\<close> of a string: single quotes, unless the string has a single quote and no
  double quote; the quote and the backslash are escaped, as are tab, newline, carriage
  return and every character that is not printable (\<open>\x..\<close>).
\<close>

definition printable :: "char \<Rightarrow> bool" where
  "printable c = (let n = (of_char c :: nat) in
     (32 \<le> n \<and> n < 127) \<or> (161 \<le> n \<and> n \<noteq> 173))"

definition repr_char :: "char \<Rightarrow> char \<Rightarrow> string" where
  "repr_char q c =
    (if c = q \<or> c = CHR 0x5C then [CHR 0x5C, c]
     else if c = CHR 0x09 then [CHR 0x5C, CHR ''t'']
     else if c = CHR 0x0A then [CHR 0x5C, CHR ''n'']
     else if c = CHR 0x0D then [CHR 0x5C, CHR ''r'']
     else if printable c then [c]
     else [CHR 0x5C, CHR ''x''] @ hex2 c)"

definition repr_str :: "string \<Rightarrow> string" where
  "repr_str s =
    (let q = (if CHR 0x27 \<in> set s \<and> CHR 0x22 \<notin> set s then CHR 0x22 else CHR 0x27)
     in [q] @ concat (map (repr_char q) s) @ [q])"

text \<open>\<^verbatim>\<open>repr(x)\<close>, and \<^verbatim>\<open>str(x)\<close>, which differs on strings only.\<close>

fun repr :: "json \<Rightarrow> string" where
  "repr JNull = ''None''"
| "repr (JBool b) = (if b then ''True'' else ''False'')"
| "repr (JInt n) = str_int n"
| "repr (JStr s) = repr_str s"
| "repr (JList xs) = ''['' @ join '', '' (map repr xs) @ '']''"
| "repr (JDict kvs) =
     ''{'' @ join '', '' (map (\<lambda>kv. repr_str (fst kv) @ '': '' @ repr (snd kv)) kvs) @ ''}''"

fun py_str :: "json \<Rightarrow> string" where
  "py_str (JStr s) = s"
| "py_str x = repr x"

text \<open>
  \<^verbatim>\<open>json.dumps(x)\<close> with its defaults: separators \<^verbatim>\<open>", "\<close> and \<^verbatim>\<open>": "\<close>, and
  \<^verbatim>\<open>ensure_ascii\<close>, so that every character outside the printable ASCII range is
  written as an escape.
\<close>

definition json_char :: "char \<Rightarrow> string" where
  "json_char c =
    (if c = CHR 0x22 then [CHR 0x5C, CHR 0x22]
     else if c = CHR 0x5C then [CHR 0x5C, CHR 0x5C]
     else if c = CHR 0x0A then [CHR 0x5C, CHR ''n'']
     else if c = CHR 0x0D then [CHR 0x5C, CHR ''r'']
     else if c = CHR 0x09 then [CHR 0x5C, CHR ''t'']
     else if c = CHR 0x08 then [CHR 0x5C, CHR ''b'']
     else if c = CHR 0x0C then [CHR 0x5C, CHR ''f'']
     else if 32 \<le> (of_char c :: nat) \<and> (of_char c :: nat) < 127 then [c]
     else [CHR 0x5C, CHR ''u'', CHR ''0'', CHR ''0''] @ hex2 c)"

definition json_str :: "string \<Rightarrow> string" where
  "json_str s = [CHR 0x22] @ concat (map json_char s) @ [CHR 0x22]"

fun dumps :: "json \<Rightarrow> string" where
  "dumps JNull = ''null''"
| "dumps (JBool b) = (if b then ''true'' else ''false'')"
| "dumps (JInt n) = str_int n"
| "dumps (JStr s) = json_str s"
| "dumps (JList xs) = ''['' @ join '', '' (map dumps xs) @ '']''"
| "dumps (JDict kvs) =
     ''{'' @ join '', '' (map (\<lambda>kv. json_str (fst kv) @ '': '' @ dumps (snd kv)) kvs) @ ''}''"

text \<open>\<^verbatim>\<open>s.encode('utf-8')\<close>: one byte below 128, two bytes from 128 to 255.\<close>

type_synonym u8 = "8 word"

definition utf8_char :: "char \<Rightarrow> u8 list" where
  "utf8_char c = (let w = (of_char c :: u8) in
     if w < 0x80 then [w] else [0xC0 OR drop_bit 6 w, 0x80 OR (w AND 0x3F)])"

definition encode :: "string \<Rightarrow> u8 list" where
  "encode s = concat (map utf8_char s)"

section \<open>Transactions\<close>

text \<open>
  \<^verbatim>\<open>Transaction\<close> holds the loaded record, a dictionary, and the UTXO set it is checked
  against, a dictionary of which only the keys are read.
\<close>

record transaction =
  json_data :: "(string \<times> json) list"
  utxo_set :: "string \<rightharpoonup> json"

text \<open>The property \<^verbatim>\<open>txid\<close>: \<^verbatim>\<open>self.json_data["vin"][0]["txid"]\<close>.\<close>

definition txid :: "transaction \<Rightarrow> error + json" where
  "txid tx =
     and_then (getitem (JDict (json_data tx)) ''vin'') (\<lambda>vin.
     and_then (getitem0 vin) (\<lambda>first. getitem first ''txid''))"

text \<open>\<^verbatim>\<open>validate_witness_data\<close> accepts everything.\<close>

definition validate_witness_data :: "transaction \<Rightarrow> bool" where
  "validate_witness_data tx = True"

text \<open>
  Line 19: \<^verbatim>\<open>locktime == 0 or locktime > 0\<close>; the comparison is reached only when the
  value is not equal to 0.
\<close>

definition locktime_ok :: "json \<Rightarrow> error + bool" where
  "locktime_ok l = (if eq_int l 0 then Inr True else gt_zero l)"

text \<open>
  Line 25: \<^verbatim>\<open>any(vin["txid"] + str(vin["vout"]) in self.utxo_set for vin in ...)\<close>.
  \<^verbatim>\<open>any\<close> stops at the first element that is true, so later elements are not looked at.
\<close>

definition utxo_key :: "json \<Rightarrow> error + string" where
  "utxo_key vin =
     and_then (getitem vin ''txid'') (\<lambda>t.
     and_then (getitem vin ''vout'') (\<lambda>n. add_str t (py_str n)))"

fun any_in_utxo :: "(string \<rightharpoonup> json) \<Rightarrow> json list \<Rightarrow> error + bool" where
  "any_in_utxo u [] = Inr False"
| "any_in_utxo u (vin # vins) =
     and_then (utxo_key vin) (\<lambda>k. if u k \<noteq> None then Inr True else any_in_utxo u vins)"

text \<open>Line 27: \<^verbatim>\<open>any(vout["value"] < 0 for vout in ...)\<close>.\<close>

fun any_negative :: "json list \<Rightarrow> error + bool" where
  "any_negative [] = Inr False"
| "any_negative (vout # vouts) =
     and_then (getitem vout ''value'') (\<lambda>v.
     and_then (lt_zero v) (\<lambda>neg. if neg then Inr True else any_negative vouts))"

text \<open>
  Line 29: the two sums. \<^verbatim>\<open>sum\<close> starts from 0 and adds each element as the generator
  yields it.
\<close>

fun sum_prevout :: "int \<Rightarrow> json list \<Rightarrow> error + int" where
  "sum_prevout acc [] = Inr acc"
| "sum_prevout acc (vin # vins) =
     and_then (getitem vin ''prevout'') (\<lambda>p.
     and_then (getitem p ''value'') (\<lambda>v.
     and_then (add_int acc v) (\<lambda>acc'. sum_prevout acc' vins)))"

fun sum_value :: "int \<Rightarrow> json list \<Rightarrow> error + int" where
  "sum_value acc [] = Inr acc"
| "sum_value acc (vout # vouts) =
     and_then (getitem vout ''value'') (\<lambda>v.
     and_then (add_int acc v) (\<lambda>acc'. sum_value acc' vouts))"

text \<open>Line 36: \<^verbatim>\<open>any(vin.get("is_coinbase", False) for vin in ...)\<close>.\<close>

fun any_coinbase :: "json list \<Rightarrow> error + bool" where
  "any_coinbase [] = Inr False"
| "any_coinbase (vin # vins) =
     and_then (get_or_false vin ''is_coinbase'') (\<lambda>c.
       if truthy c then Inr True else any_coinbase vins)"

text \<open>
  Line 38: \<^verbatim>\<open>len(vin) != 1 or "prevout" in vin[0]\<close>, the condition under which a
  transaction with a coinbase input is refused.
\<close>

definition coinbase_refused :: "json \<Rightarrow> error + bool" where
  "coinbase_refused vin =
     and_then (py_len vin) (\<lambda>n.
       if n \<noteq> 1 then Inr True
       else and_then (getitem0 vin) (\<lambda>first. contains_str ''prevout'' first))"

text \<open>
  \<^verbatim>\<open>is_valid\<close>, check by check in the order of the source. \<open>Inr b\<close> is the returned
  boolean, \<open>Inl e\<close> an exception that leaves the method.
\<close>

definition is_valid :: "transaction \<Rightarrow> error + bool" where
  "is_valid tx =
    (let d = json_data tx in
     case map_of d ''version'' of None \<Rightarrow> Inr False | Some ver \<Rightarrow>
     if \<not> (eq_int ver 1 \<or> eq_int ver 2) then Inr False else
     case map_of d ''locktime'' of None \<Rightarrow> Inr False | Some l \<Rightarrow>
     and_then (locktime_ok l) (\<lambda>ok. if \<not> ok then Inr False else
     and_then (getitem (JDict d) ''vin'') (\<lambda>vin. if \<not> truthy vin then Inr False else
     and_then (getitem (JDict d) ''vout'') (\<lambda>vout. if \<not> truthy vout then Inr False else
     if 100000 < int (length (encode (dumps (JDict d)))) then Inr False else
     and_then (py_iter vin) (\<lambda>vins.
     and_then (any_in_utxo (utxo_set tx) vins) (\<lambda>spent. if spent then Inr False else
     and_then (py_iter vout) (\<lambda>vouts.
     and_then (any_negative vouts) (\<lambda>neg. if neg then Inr False else
     and_then (sum_prevout 0 vins) (\<lambda>total_in.
     and_then (sum_value 0 vouts) (\<lambda>total_out. if total_in < total_out then Inr False else
     and_then (any_coinbase vins) (\<lambda>is_coinbase.
     and_then (if is_coinbase then coinbase_refused vin else Inr False) (\<lambda>refused.
       if refused then Inr False
       else if map_of d ''witness'' \<noteq> None \<and> \<not> validate_witness_data tx then Inr False
       else Inr True))))))))))))"

section \<open>SHA-256\<close>

text \<open>
  \<^verbatim>\<open>hashlib.sha256(bytes).hexdigest()\<close>, after FIPS 180-4: the message is padded to a
  multiple of 64 bytes, cut into blocks of sixteen 32-bit words, and each block is
  compressed into the eight-word state.
\<close>

type_synonym u32 = "32 word"

definition K256 :: "u32 list" where
  "K256 = [
   0x428A2F98, 0x71374491, 0xB5C0FBCF, 0xE9B5DBA5, 0x3956C25B, 0x59F111F1, 0x923F82A4, 0xAB1C5ED5,
   0xD807AA98, 0x12835B01, 0x243185BE, 0x550C7DC3, 0x72BE5D74, 0x80DEB1FE, 0x9BDC06A7, 0xC19BF174,
   0xE49B69C1, 0xEFBE4786, 0x0FC19DC6, 0x240CA1CC, 0x2DE92C6F, 0x4A7484AA, 0x5CB0A9DC, 0x76F988DA,
   0x983E5152, 0xA831C66D, 0xB00327C8, 0xBF597FC7, 0xC6E00BF3, 0xD5A79147, 0x06CA6351, 0x14292967,
   0x27B70A85, 0x2E1B2138, 0x4D2C6DFC, 0x53380D13, 0x650A7354, 0x766A0ABB, 0x81C2C92E, 0x92722C85,
   0xA2BFE8A1, 0xA81A664B, 0xC24B8B70, 0xC76C51A3, 0xD192E819, 0xD6990624, 0xF40E3585, 0x106AA070,
   0x19A4C116, 0x1E376C08, 0x2748774C, 0x34B0BCB5, 0x391C0CB3, 0x4ED8AA4A, 0x5B9CCA4F, 0x682E6FF3,
   0x748F82EE, 0x78A5636F, 0x84C87814, 0x8CC70208, 0x90BEFFFA, 0xA4506CEB, 0xBEF9A3F7, 0xC67178F2]"

definition H256 :: "u32 list" where
  "H256 = [0x6A09E667, 0xBB67AE85, 0x3C6EF372, 0xA54FF53A,
           0x510E527F, 0x9B05688C, 0x1F83D9AB, 0x5BE0CD19]"

definition rotr :: "nat \<Rightarrow> u32 \<Rightarrow> u32" where
  "rotr n x = drop_bit n x OR push_bit (32 - n) x"

definition ssig0 :: "u32 \<Rightarrow> u32" where
  "ssig0 x = rotr 7 x XOR rotr 18 x XOR drop_bit 3 x"

definition ssig1 :: "u32 \<Rightarrow> u32" where
  "ssig1 x = rotr 17 x XOR rotr 19 x XOR drop_bit 10 x"

definition bsig0 :: "u32 \<Rightarrow> u32" where
  "bsig0 x = rotr 2 x XOR rotr 13 x XOR rotr 22 x"

definition bsig1 :: "u32 \<Rightarrow> u32" where
  "bsig1 x = rotr 6 x XOR rotr 11 x XOR rotr 25 x"

definition ch :: "u32 \<Rightarrow> u32 \<Rightarrow> u32 \<Rightarrow> u32" where
  "ch x y z = (x AND y) XOR (NOT x AND z)"

definition maj :: "u32 \<Rightarrow> u32 \<Rightarrow> u32 \<Rightarrow> u32" where
  "maj x y z = (x AND y) XOR (x AND z) XOR (y AND z)"

text \<open>The message schedule; \<open>ws\<close> holds the words computed so far, the newest first.\<close>

fun schedule :: "nat \<Rightarrow> u32 list \<Rightarrow> u32 list" where
  "schedule 0 ws = rev ws"
| "schedule (Suc n) ws =
     schedule n ((ssig1 (ws ! 1) + ws ! 6 + ssig0 (ws ! 14) + ws ! 15) # ws)"

fun rounds :: "u32 list \<Rightarrow> u32 list \<Rightarrow> u32 list \<Rightarrow> u32 list" where
  "rounds [a, b, c, d, e, f, g, h] (k # ks) (w # ws) =
     (let t1 = h + bsig1 e + ch e f g + k + w;
          t2 = bsig0 a + maj a b c
      in rounds [t1 + t2, a, b, c, d + t1, e, f, g] ks ws)"
| "rounds s _ _ = s"

definition compress :: "u32 list \<Rightarrow> u32 list \<Rightarrow> u32 list" where
  "compress hs blk = map2 (+) hs (rounds hs K256 (schedule 48 (rev blk)))"

fun be32 :: "u8 list \<Rightarrow> u32 list" where
  "be32 (a # b # c # d # bs) =
     (push_bit 24 (ucast a) OR push_bit 16 (ucast b) OR push_bit 8 (ucast c) OR ucast d) # be32 bs"
| "be32 _ = []"

definition len64 :: "nat \<Rightarrow> u8 list" where
  "len64 n = map (\<lambda>i. ucast (drop_bit i (8 * of_nat n :: 64 word))) [56, 48, 40, 32, 24, 16, 8, 0]"

definition pad :: "u8 list \<Rightarrow> u8 list" where
  "pad bs = bs @ [0x80] @ replicate ((119 - length bs mod 64) mod 64) 0 @ len64 (length bs)"

fun compress_all :: "u32 list \<Rightarrow> u32 list \<Rightarrow> u32 list" where
  "compress_all hs [] = hs"
| "compress_all hs ws = compress_all (compress hs (take 16 ws)) (drop 16 ws)"

definition hex32 :: "u32 \<Rightarrow> string" where
  "hex32 w = map (\<lambda>i. hex_char (unat (drop_bit i w AND 15))) [28, 24, 20, 16, 12, 8, 4, 0]"

definition sha256_hex :: "u8 list \<Rightarrow> string" where
  "sha256_hex bs = concat (map hex32 (compress_all H256 (be32 (pad bs))))"

section \<open>Reading a hexadecimal number\<close>

text \<open>
  \<^verbatim>\<open>int(s, 16)\<close>: white space around the number, a sign, the prefix \<^verbatim>\<open>0x\<close> and single
  underscores between digits are accepted; anything else is a \<^verbatim>\<open>ValueError\<close>.
\<close>

definition is_space :: "char \<Rightarrow> bool" where
  "is_space c = (let n = (of_char c :: nat) in
     (9 \<le> n \<and> n \<le> 13) \<or> (28 \<le> n \<and> n \<le> 32) \<or> n = 133 \<or> n = 160)"

definition hex_val :: "char \<Rightarrow> int option" where
  "hex_val c = (let n = (of_char c :: int) in
     if 48 \<le> n \<and> n \<le> 57 then Some (n - 48)
     else if 97 \<le> n \<and> n \<le> 102 then Some (n - 87)
     else if 65 \<le> n \<and> n \<le> 70 then Some (n - 55)
     else None)"

text \<open>\<open>digits acc after_underscore s\<close>: the value of the digits of \<open>s\<close>, or nothing when
  \<open>s\<close> is not a run of digits with single underscores between them.\<close>

fun digits :: "int \<Rightarrow> bool \<Rightarrow> string \<Rightarrow> int option" where
  "digits acc u [] = (if u then None else Some acc)"
| "digits acc u (c # cs) =
     (if c = CHR ''_'' then (if u then None else digits acc True cs)
      else case hex_val c of None \<Rightarrow> None | Some d \<Rightarrow> digits (16 * acc + d) False cs)"

definition strip_sign :: "string \<Rightarrow> bool \<times> string" where
  "strip_sign s = (case s of [] \<Rightarrow> (False, [])
     | c # cs \<Rightarrow> if c = CHR ''-'' then (True, cs) else if c = CHR ''+'' then (False, cs) else (False, s))"

definition strip_0x :: "string \<Rightarrow> string" where
  "strip_0x s = (case s of
       a # b # cs \<Rightarrow>
         if a = CHR ''0'' \<and> (b = CHR ''x'' \<or> b = CHR ''X'')
         then (case cs of [] \<Rightarrow> cs | c # cs' \<Rightarrow> if c = CHR ''_'' then cs' else cs)
         else s
     | _ \<Rightarrow> s)"

definition int16 :: "string \<Rightarrow> error + int" where
  "int16 s =
    (let (neg, t) = strip_sign (dropWhile is_space s);
         body = rev (dropWhile is_space (rev (strip_0x t)))
     in case digits 0 True body of
          None \<Rightarrow> Inl ValueError
        | Some v \<Rightarrow> Inr (if neg then - v else v))"

section \<open>Blocks\<close>

record block =
  transactions :: "transaction list"
  previous_hash :: string
  nonce :: int
  hash :: string

text \<open>
  \<^verbatim>\<open>merkle_root\<close>: the generator \<^verbatim>\<open>tx.txid for tx in self.transactions\<close> is read from
  left to right, so the first failing \<^verbatim>\<open>txid\<close> raises. \<^verbatim>\<open>sorted\<close> followed by
  \<^verbatim>\<open>''.join\<close> succeeds when every identifier is a string and raises \<^verbatim>\<open>TypeError\<close>
  otherwise. Strings are compared code point by code point, a proper prefix first.
\<close>

fun txids :: "transaction list \<Rightarrow> error + json list" where
  "txids [] = Inr []"
| "txids (tx # txs) =
     and_then (txid tx) (\<lambda>i. and_then (txids txs) (\<lambda>ids. Inr (i # ids)))"

fun is_str :: "json \<Rightarrow> bool" where
  "is_str (JStr s) = True"
| "is_str _ = False"

fun str_of :: "json \<Rightarrow> string" where
  "str_of (JStr s) = s"
| "str_of _ = []"

definition txid_string :: "json list \<Rightarrow> error + string" where
  "txid_string ids =
     (if list_all is_str ids then Inr (concat (sort (map str_of ids))) else Inl TypeError)"

definition merkle_root :: "block \<Rightarrow> error + string" where
  "merkle_root b =
     and_then (txids (transactions b)) (\<lambda>ids.
     and_then (txid_string ids) (\<lambda>s. Inr (sha256_hex (encode s))))"

text \<open>\<^verbatim>\<open>calculate_hash\<close>: the digest of previous hash, decimal nonce and Merkle root.\<close>

definition calculate_hash :: "block \<Rightarrow> error + string" where
  "calculate_hash b =
     and_then (merkle_root b) (\<lambda>root.
       Inr (sha256_hex (encode (previous_hash b @ str_int (nonce b) @ root))))"

text \<open>
  The loop of \<^verbatim>\<open>mine\<close>. It has no bound, so it is a partial function: \<open>None\<close> is a
  search that goes on for ever, \<open>Some (Inr b)\<close> the block as the loop leaves it,
  \<open>Some (Inl e)\<close> an exception.
\<close>

partial_function (option) mine_loop :: "int \<Rightarrow> block \<Rightarrow> (error + block) option" where
  "mine_loop target b =
     (case calculate_hash b of
        Inl e \<Rightarrow> Some (Inl e)
      | Inr h \<Rightarrow>
          (case int16 h of
             Inl e \<Rightarrow> Some (Inl e)
           | Inr v \<Rightarrow>
               if v < target then Some (Inr (b\<lparr>hash := h\<rparr>))
               else mine_loop target (b\<lparr>hash := h, nonce := nonce b + 1\<rparr>)))"

definition mine :: "block \<Rightarrow> string \<Rightarrow> (error + block) option" where
  "mine b difficulty =
     (if length difficulty \<noteq> 64 then Some (Inl AssertionError)
      else case int16 difficulty of
             Inl e \<Rightarrow> Some (Inl e)
           | Inr target \<Rightarrow> mine_loop target b)"

section \<open>The chain and the miner\<close>

record blockchain =
  blocks :: "block list"

text \<open>\<^verbatim>\<open>add_block\<close> is \<^verbatim>\<open>self.blocks.append(block)\<close> and nothing else.\<close>

definition add_block :: "blockchain \<Rightarrow> block \<Rightarrow> blockchain" where
  "add_block chain b = chain\<lparr>blocks := blocks chain @ [b]\<rparr>"

record miner =
  mempool_path :: string
  pool :: "transaction list"
  blockchain :: blockchain
  difficulty :: string
  miner_utxo_set :: "string \<rightharpoonup> json"

text \<open>
  The field \<open>pool\<close> is \<^verbatim>\<open>Miner.transactions\<close> and \<open>miner_utxo_set\<close> is
  \<^verbatim>\<open>Miner.utxo_set\<close>; the names are taken by the fields of blocks and transactions.
  \<^verbatim>\<open>select_transactions_for_block\<close> is the slice \<^verbatim>\<open>self.transactions[:10]\<close>.
\<close>

definition select_transactions_for_block :: "miner \<Rightarrow> transaction list" where
  "select_transactions_for_block m = take 10 (pool m)"

text \<open>\<^verbatim>\<open>mine_block\<close> returns the new block and the miner with the block appended.\<close>

definition genesis_hash :: string where
  "genesis_hash = replicate 64 CHR ''0''"

definition mine_block :: "miner \<Rightarrow> (error + block \<times> miner) option" where
  "mine_block m =
    (let prev = (if blocks (blockchain m) = [] then genesis_hash
                 else hash (last (blocks (blockchain m))));
         new_block = \<lparr>transactions = select_transactions_for_block m,
                      previous_hash = prev, nonce = 0, hash = []\<rparr>
     in case mine new_block (difficulty m) of
          None \<Rightarrow> None
        | Some (Inl e) \<Rightarrow> Some (Inl e)
        | Some (Inr b) \<Rightarrow> Some (Inr (b, m\<lparr>blockchain := add_block (blockchain m) b\<rparr>)))"

section \<open>Example records\<close>

text \<open>
  Concrete inputs for the properties below: an input that spends \<open>value\<close> from output
  \<open>n\<close> of transaction \<open>t\<close>, a coinbase input (it has no \<^verbatim>\<open>prevout\<close>), an output, and the
  record with version 1, lock time 0 and the given inputs and outputs, checked against
  the empty UTXO set (the only one \<^verbatim>\<open>Miner\<close> ever builds).
\<close>

definition spend_input :: "string \<Rightarrow> int \<Rightarrow> int \<Rightarrow> json" where
  "spend_input t n v =
     JDict [(''txid'', JStr t), (''vout'', JInt n), (''prevout'', JDict [(''value'', JInt v)])]"

definition coinbase_input :: json where
  "coinbase_input = JDict [(''txid'', JStr ''00''), (''vout'', JInt 0), (''is_coinbase'', JBool True)]"

definition pay_output :: "int \<Rightarrow> json" where
  "pay_output v = JDict [(''value'', JInt v)]"

definition record_of :: "json list \<Rightarrow> json list \<Rightarrow> transaction" where
  "record_of vin vout =
     \<lparr>json_data = [(''version'', JInt 1), (''locktime'', JInt 0),
                   (''vin'', JList vin), (''vout'', JList vout)],
      utxo_set = Map.empty\<rparr>"

definition simple_tx :: "string \<Rightarrow> transaction" where
  "simple_tx t = record_of [spend_input t 0 5] [pay_output 3]"

definition miner_of :: "transaction list \<Rightarrow> miner" where
  "miner_of txs =
     \<lparr>mempool_path = ''./mempool/'', pool = txs, blockchain = \<lparr>blocks = []\<rparr>,
      difficulty = ''0000ffff00000000000000000000000000000000000000000000000000000000'',
      miner_utxo_set = Map.empty\<rparr>"

definition block_of :: "string \<Rightarrow> string \<Rightarrow> block" where
  "block_of prev h = \<lparr>transactions = [], previous_hash = prev, nonce = 0, hash = h\<rparr>"

section \<open>Sequencing\<close>

lemma and_then_Inl [simp]: "and_then (Inl e) f = Inl e"
  by (simp add: and_then_def)

lemma and_then_Inr [simp]: "and_then (Inr x) f = f x"
  by (simp add: and_then_def)

lemma and_then_eq_Inr: "and_then m f = Inr y \<longleftrightarrow> (\<exists>x. m = Inr x \<and> f x = Inr y)"
  by (cases m) simp_all

section \<open>Selection of candidates\<close>

text \<open>
  C7. When the pool holds 15 transactions or more, the selection has exactly 10
  elements and they are the first 10 of the pool, in the order of the pool: the pool is
  the selection followed by the transactions from position 10 on.
\<close>

theorem select_first_ten:
  assumes "15 \<le> length (pool m)"
  shows "length (select_transactions_for_block m) = 10
    \<and> pool m = select_transactions_for_block m @ drop 10 (pool m)
    \<and> (\<forall>i<10. select_transactions_for_block m ! i = pool m ! i)"
  using assms by (simp add: select_transactions_for_block_def)

theorem select_first_ten_witness:
  "15 \<le> length (pool (miner_of (map simple_tx
       [''a0'', ''a1'', ''a2'', ''a3'', ''a4'', ''a5'', ''a6'', ''a7'', ''a8'', ''a9'',
        ''b0'', ''b1'', ''b2'', ''b3'', ''b4''])))
   \<and> select_transactions_for_block (miner_of (map simple_tx
       [''a0'', ''a1'', ''a2'', ''a3'', ''a4'', ''a5'', ''a6'', ''a7'', ''a8'', ''a9'',
        ''b0'', ''b1'', ''b2'', ''b3'', ''b4'']))
     = map simple_tx [''a0'', ''a1'', ''a2'', ''a3'', ''a4'', ''a5'', ''a6'', ''a7'', ''a8'', ''a9'']"
  using select_first_ten [of "miner_of (map simple_tx
       [''a0'', ''a1'', ''a2'', ''a3'', ''a4'', ''a5'', ''a6'', ''a7'', ''a8'', ''a9'',
        ''b0'', ''b1'', ''b2'', ''b3'', ''b4''])"]
  by (simp add: miner_of_def select_transactions_for_block_def)

text \<open>
  C9. When the pool holds fewer than 10 transactions, the empty pool included, the
  selection is the whole pool, unchanged and in the order of the pool.
\<close>

theorem select_short_pool:
  assumes "length (pool m) < 10"
  shows "select_transactions_for_block m = pool m"
  using assms by (simp add: select_transactions_for_block_def)

theorem select_short_pool_witness:
  "length (pool (miner_of [simple_tx ''a0'', simple_tx ''a1'', simple_tx ''a2''])) < 10
   \<and> select_transactions_for_block (miner_of [simple_tx ''a0'', simple_tx ''a1'', simple_tx ''a2''])
     = [simple_tx ''a0'', simple_tx ''a1'', simple_tx ''a2'']
   \<and> length (pool (miner_of [])) < 10
   \<and> select_transactions_for_block (miner_of []) = []"
  using select_short_pool [of "miner_of [simple_tx ''a0'', simple_tx ''a1'', simple_tx ''a2'']"]
    select_short_pool [of "miner_of []"]
  by (simp add: miner_of_def)

end
